theory Spec2Isabelle
  imports Complex_Main
begin

section \<open>The store\<close>

text \<open>
  The engine of \<^verbatim>\<open>db.py\<close> works on the tables of one relational store. A table is
  modelled as the list of its rows in storage order; \<^verbatim>\<open>fetchone()\<close> is the first row that
  satisfies the \<^verbatim>\<open>WHERE\<close> clause, \<^verbatim>\<open>UPDATE ... WHERE\<close> rewrites every row that satisfies
  it, \<^verbatim>\<open>DELETE ... WHERE\<close> drops every such row, and an \<^verbatim>\<open>INSERT\<close> into a table with a
  \<^verbatim>\<open>SERIAL\<close> key takes its id from the sequence of that table. The id columns of
  \<^verbatim>\<open>transactions\<close> and \<^verbatim>\<open>trade_offer_assets\<close>, which no statement reads, are left out.

  Money columns (\<^verbatim>\<open>NUMERIC(10, 2)\<close> in the store, \<^verbatim>\<open>float\<close> in Python) are exact
  rationals here; share counts and scores (\<^verbatim>\<open>INTEGER\<close>) are integers; the clock
  (\<^verbatim>\<open>datetime.now()\<close>, \<^verbatim>\<open>CURRENT_TIMESTAMP\<close>) is an argument of the operations that read
  it.
\<close>

record user_row =
  u_id :: string
  wallet_balance :: rat
  is_verified_adult :: "bool option"

record holding_row =
  h_id :: nat
  h_user_id :: string
  h_asset_type :: string
  h_asset_name :: string
  h_quantity :: int

record transaction_row =
  t_timestamp :: nat
  t_transaction_type :: string
  t_user_id :: string
  t_asset_type :: string
  t_asset_name :: string
  t_price :: rat
  t_quantity :: int
  t_purchase_price :: rat
  t_profit_loss :: rat

record game_row =
  g_id :: nat
  g_home_team :: string
  g_away_team :: string
  g_game_date :: nat
  g_home_odds :: rat
  g_away_odds :: rat
  g_spread :: rat
  g_over_under :: rat
  g_status :: string
  g_home_score :: int
  g_away_score :: int
  g_updated_at :: nat

record bet_row =
  b_id :: nat
  b_user_id :: string
  b_game_id :: nat
  b_bet_type :: string
  b_bet_pick :: string
  b_amount :: rat
  b_potential_payout :: rat
  b_odds :: rat
  b_status :: string

record parlay_row =
  p_id :: nat
  p_user_id :: string
  p_amount :: rat
  p_potential_payout :: rat
  p_status :: string

record parlay_bet_row =
  pb_id :: nat
  pb_parlay_id :: nat
  pb_game_id :: nat
  pb_bet_type :: string
  pb_bet_pick :: string
  pb_odds :: rat
  pb_status :: string

record trade_offer_row =
  o_id :: nat
  o_sender_id :: string
  o_recipient_id :: "string option"
  o_status :: string
  o_created_at :: nat
  o_updated_at :: nat

record trade_offer_asset_row =
  a_trade_offer_id :: nat
  a_user_id :: "string option"
  a_asset_type :: string
  a_asset_name :: string
  a_quantity :: int

record db =
  users :: "user_row list"
  holdings :: "holding_row list"
  holdings_seq :: nat
  transactions :: "transaction_row list"
  upcoming_games :: "game_row list"
  user_bets :: "bet_row list"
  user_bets_seq :: nat
  parlays :: "parlay_row list"
  parlays_seq :: nat
  parlay_bets :: "parlay_bet_row list"
  parlay_bets_seq :: nat
  trade_offers :: "trade_offer_row list"
  trade_offers_seq :: nat
  trade_offer_assets :: "trade_offer_asset_row list"

datatype error =
    UserNotFound
  | InsufficientFunds
  | NoSharesToSell
  | InvalidTransactionType
  | NotVerifiedAdult
  | BettingClosed
  | TooFewSelections
  | GameNotFound
  | NotEnoughToOffer
  | OfferNotFound
  | OfferAlreadyAnswered
  | SenderLacksAsset
  | RecipientLacksAsset

section \<open>Buying and selling: \<^verbatim>\<open>execute_transaction\<close>\<close>

definition find_user :: "string \<Rightarrow> db \<Rightarrow> user_row option" where
  "find_user user_id s = find (\<lambda>u. u_id u = user_id) (users s)"

definition holding_matches :: "string \<Rightarrow> string \<Rightarrow> string \<Rightarrow> holding_row \<Rightarrow> bool" where
  "holding_matches user_id asset_type asset_name h \<longleftrightarrow>
     h_user_id h = user_id \<and> h_asset_type h = asset_type \<and> h_asset_name h = asset_name"

definition find_holding :: "string \<Rightarrow> string \<Rightarrow> string \<Rightarrow> db \<Rightarrow> holding_row option" where
  "find_holding user_id asset_type asset_name s =
     find (holding_matches user_id asset_type asset_name) (holdings s)"

text \<open>\<^verbatim>\<open>UPDATE users SET wallet_balance = wallet_balance + :x WHERE id = :user_id\<close>\<close>

definition add_to_wallet :: "string \<Rightarrow> rat \<Rightarrow> db \<Rightarrow> db" where
  "add_to_wallet user_id x s =
     s\<lparr>users := map (\<lambda>u. if u_id u = user_id
                            then u\<lparr>wallet_balance := wallet_balance u + x\<rparr> else u) (users s)\<rparr>"

text \<open>\<^verbatim>\<open>UPDATE holdings SET quantity = quantity + :n WHERE id = :holding_id\<close>\<close>

definition add_to_holding :: "nat \<Rightarrow> int \<Rightarrow> db \<Rightarrow> db" where
  "add_to_holding holding_id n s =
     s\<lparr>holdings := map (\<lambda>h. if h_id h = holding_id
                               then h\<lparr>h_quantity := h_quantity h + n\<rparr> else h) (holdings s)\<rparr>"

definition delete_holding :: "nat \<Rightarrow> db \<Rightarrow> db" where
  "delete_holding holding_id s =
     s\<lparr>holdings := filter (\<lambda>h. h_id h \<noteq> holding_id) (holdings s)\<rparr>"

definition insert_holding :: "string \<Rightarrow> string \<Rightarrow> string \<Rightarrow> int \<Rightarrow> db \<Rightarrow> db" where
  "insert_holding user_id asset_type asset_name n s =
     s\<lparr>holdings := holdings s @
          [\<lparr>h_id = holdings_seq s, h_user_id = user_id, h_asset_type = asset_type,
            h_asset_name = asset_name, h_quantity = n\<rparr>],
       holdings_seq := Suc (holdings_seq s)\<rparr>"

definition record_transaction :: "transaction_row \<Rightarrow> db \<Rightarrow> db" where
  "record_transaction t s = s\<lparr>transactions := transactions s @ [t]\<rparr>"

text \<open>
  \<^verbatim>\<open>SELECT AVG(price) FROM transactions WHERE user_id = ... AND asset_type = ... AND
  asset_name = ... AND transaction_type = 'Buy'\<close>: \<open>None\<close> is the \<^verbatim>\<open>NULL\<close> of an empty
  selection.
\<close>

definition buy_prices :: "string \<Rightarrow> string \<Rightarrow> string \<Rightarrow> db \<Rightarrow> rat list" where
  "buy_prices user_id asset_type asset_name s =
     map t_price (filter (\<lambda>t. t_user_id t = user_id \<and> t_asset_type t = asset_type \<and>
                               t_asset_name t = asset_name \<and> t_transaction_type t = ''Buy'')
                         (transactions s))"

definition avg_price :: "rat list \<Rightarrow> rat option" where
  "avg_price ps = (if ps = [] then None else Some (sum_list ps / of_nat (length ps)))"

text \<open>
  \<^verbatim>\<open>float(purchase_result[0]) if purchase_result and purchase_result[0] else float(price)\<close>:
  the test is Python truthiness, which \<^verbatim>\<open>None\<close> and a zero average both fail.
\<close>

definition avg_purchase_price :: "rat option \<Rightarrow> rat \<Rightarrow> rat" where
  "avg_purchase_price avg price =
     (case avg of None \<Rightarrow> price | Some a \<Rightarrow> if a \<noteq> 0 then a else price)"

text \<open>
  The demo login: before the transaction proper, user \<^verbatim>\<open>demo_user_001\<close> is created with
  a balance of 300 when missing, and that insertion is committed on its own.
\<close>

definition ensure_demo_user :: "string \<Rightarrow> db \<Rightarrow> db" where
  "ensure_demo_user user_id s =
     (if user_id = ''demo_user_001'' \<and> find_user user_id s = None
      then s\<lparr>users := users s @
                [\<lparr>u_id = user_id, wallet_balance = 300, is_verified_adult = Some False\<rparr>]\<rparr>
      else s)"

definition buy :: "string \<Rightarrow> string \<Rightarrow> string \<Rightarrow> rat \<Rightarrow> nat \<Rightarrow> db \<Rightarrow> db" where
  "buy user_id asset_type asset_name price now s =
     (let s1 = add_to_wallet user_id (- price) s;
          s2 = (case find_holding user_id asset_type asset_name s1 of
                  Some existing_holding \<Rightarrow> add_to_holding (h_id existing_holding) 1 s1
                | None \<Rightarrow> insert_holding user_id asset_type asset_name 1 s1)
      in record_transaction
           \<lparr>t_timestamp = now, t_transaction_type = ''Buy'', t_user_id = user_id,
            t_asset_type = asset_type, t_asset_name = asset_name, t_price = price,
            t_quantity = 1, t_purchase_price = price, t_profit_loss = 0\<rparr> s2)"

definition sell :: "string \<Rightarrow> string \<Rightarrow> string \<Rightarrow> rat \<Rightarrow> nat \<Rightarrow> holding_row \<Rightarrow> db \<Rightarrow> db" where
  "sell user_id asset_type asset_name price now existing_holding s =
     (let s1 = add_to_wallet user_id price s;
          s2 = (if h_quantity existing_holding = 1
                then delete_holding (h_id existing_holding) s1
                else add_to_holding (h_id existing_holding) (- 1) s1);
          avg_purchase = avg_purchase_price
                           (avg_price (buy_prices user_id asset_type asset_name s2)) price;
          profit_loss = price - avg_purchase
      in record_transaction
           \<lparr>t_timestamp = now, t_transaction_type = ''Sell'', t_user_id = user_id,
            t_asset_type = asset_type, t_asset_name = asset_name, t_price = price,
            t_quantity = 1, t_purchase_price = avg_purchase, t_profit_loss = profit_loss\<rparr> s2)"

text \<open>
  \<^verbatim>\<open>execute_transaction(user_id, asset_type, asset_name, transaction_type, price, ...)\<close>.
  Every \<^verbatim>\<open>return False, ...\<close> leaves the open transaction uncommitted, so the store is
  the one the transaction started from.
\<close>

definition execute_transaction ::
  "string \<Rightarrow> string \<Rightarrow> string \<Rightarrow> string \<Rightarrow> rat \<Rightarrow> nat \<Rightarrow> db \<Rightarrow> (error + unit) \<times> db" where
  "execute_transaction user_id asset_type asset_name transaction_type price now s =
     (let s0 = ensure_demo_user user_id s in
      case find_user user_id s0 of
        None \<Rightarrow> (Inl UserNotFound, s0)
      | Some result \<Rightarrow>
          if transaction_type = ''buy'' then
            if wallet_balance result < price then (Inl InsufficientFunds, s0)
            else (Inr (), buy user_id asset_type asset_name price now s0)
          else if transaction_type = ''sell'' then
            (case find_holding user_id asset_type asset_name s0 of
               None \<Rightarrow> (Inl NoSharesToSell, s0)
             | Some existing_holding \<Rightarrow>
                 if h_quantity existing_holding < 1 then (Inl NoSharesToSell, s0)
                 else (Inr (), sell user_id asset_type asset_name price now existing_holding s0))
          else (Inl InvalidTransactionType, s0))"

text \<open>What the sell check reads: the quantity of the selected holding, none held being 0.\<close>

definition held_quantity :: "string \<Rightarrow> string \<Rightarrow> string \<Rightarrow> db \<Rightarrow> int" where
  "held_quantity user_id asset_type asset_name s =
     (case find_holding user_id asset_type asset_name s of
        None \<Rightarrow> 0 | Some h \<Rightarrow> h_quantity h)"

section \<open>Wagering: \<^verbatim>\<open>place_bet\<close> and \<^verbatim>\<open>create_parlay_bet\<close>\<close>

text \<open>
  \<^verbatim>\<open>is_user_verified_adult\<close> returns the column as it is, and the callers test it with
  \<^verbatim>\<open>not\<close>: an unknown user, \<^verbatim>\<open>NULL\<close> and \<^verbatim>\<open>FALSE\<close> all count as unverified.
\<close>

definition is_user_verified_adult :: "string \<Rightarrow> db \<Rightarrow> bool" where
  "is_user_verified_adult user_id s =
     (case find_user user_id s of
        None \<Rightarrow> False
      | Some result \<Rightarrow> is_verified_adult result = Some True)"

text \<open>
  \<^verbatim>\<open>SELECT * FROM upcoming_games WHERE id = :game_id AND status = 'scheduled'
  AND game_date > CURRENT_TIMESTAMP\<close>
\<close>

definition open_game :: "nat \<Rightarrow> nat \<Rightarrow> db \<Rightarrow> game_row option" where
  "open_game game_id now s =
     find (\<lambda>g. g_id g = game_id \<and> g_status g = ''scheduled'' \<and> now < g_game_date g)
          (upcoming_games s)"

definition leg_odds :: "game_row \<Rightarrow> string \<Rightarrow> string \<Rightarrow> rat" where
  "leg_odds game bet_type bet_pick =
     (if bet_type = ''moneyline''
      then (if bet_pick = ''home'' then g_home_odds game else g_away_odds game)
      else if bet_type = ''spread'' \<or> bet_type = ''over_under'' then 191 / 100
      else 0)"

text \<open>\<^verbatim>\<open>round(x, 2)\<close>: to the nearest hundredth, a tie going to the even one.\<close>

definition round_half_even :: "rat \<Rightarrow> int" where
  "round_half_even x =
     (let f = \<lfloor>x\<rfloor>; d = x - of_int f in
      if d < 1 / 2 then f
      else if 1 / 2 < d then f + 1
      else if even f then f else f + 1)"

definition round2 :: "rat \<Rightarrow> rat" where
  "round2 x = of_int (round_half_even (x * 100)) / 100"

definition place_bet ::
  "string \<Rightarrow> nat \<Rightarrow> string \<Rightarrow> string \<Rightarrow> rat \<Rightarrow> nat \<Rightarrow> db \<Rightarrow> (error + nat) \<times> db" where
  "place_bet user_id game_id bet_type bet_pick amount now s =
     (if \<not> is_user_verified_adult user_id s then (Inl NotVerifiedAdult, s)
      else case open_game game_id now s of
        None \<Rightarrow> (Inl BettingClosed, s)
      | Some game \<Rightarrow>
          (case find_user user_id s of
             None \<Rightarrow> (Inl UserNotFound, s)
           | Some result \<Rightarrow>
               if wallet_balance result < amount then (Inl InsufficientFunds, s)
               else
                 let odds = leg_odds game bet_type bet_pick;
                     potential_payout = round2 (amount * odds);
                     s1 = add_to_wallet user_id (- amount) s;
                     bet_id = user_bets_seq s1
                 in (Inr bet_id,
                     s1\<lparr>user_bets := user_bets s1 @
                           [\<lparr>b_id = bet_id, b_user_id = user_id, b_game_id = game_id,
                             b_bet_type = bet_type, b_bet_pick = bet_pick, b_amount = amount,
                             b_potential_payout = potential_payout, b_odds = odds,
                             b_status = ''pending''\<rparr>],
                         user_bets_seq := Suc bet_id\<rparr>)))"

text \<open>One selection of a parlay: the dict with keys \<^verbatim>\<open>game_id\<close>, \<^verbatim>\<open>bet_type\<close>, \<^verbatim>\<open>bet_pick\<close>.\<close>

record selection =
  sel_game_id :: nat
  sel_bet_type :: string
  sel_bet_pick :: string

text \<open>
  The loop over the selections: it stops at the first game that is not open, and
  otherwise accumulates \<^verbatim>\<open>total_odds\<close> and \<^verbatim>\<open>valid_bets\<close>.
\<close>

fun price_selections ::
  "nat \<Rightarrow> db \<Rightarrow> selection list \<Rightarrow> rat \<Rightarrow> (selection \<times> rat) list
     \<Rightarrow> error + rat \<times> (selection \<times> rat) list" where
  "price_selections now s [] total_odds valid_bets = Inr (total_odds, valid_bets)"
| "price_selections now s (bet # bets) total_odds valid_bets =
     (case open_game (sel_game_id bet) now s of
        None \<Rightarrow> Inl BettingClosed
      | Some game \<Rightarrow>
          let odds = leg_odds game (sel_bet_type bet) (sel_bet_pick bet)
          in price_selections now s bets (total_odds * odds) (valid_bets @ [(bet, odds)]))"

text \<open>The legs are inserted with the default status \<^verbatim>\<open>'pending'\<close> of the column.\<close>

fun insert_parlay_bets :: "nat \<Rightarrow> (selection \<times> rat) list \<Rightarrow> db \<Rightarrow> db" where
  "insert_parlay_bets parlay_id [] s = s"
| "insert_parlay_bets parlay_id ((bet, odds) # valid_bets) s =
     insert_parlay_bets parlay_id valid_bets
       (s\<lparr>parlay_bets := parlay_bets s @
             [\<lparr>pb_id = parlay_bets_seq s, pb_parlay_id = parlay_id,
               pb_game_id = sel_game_id bet, pb_bet_type = sel_bet_type bet,
               pb_bet_pick = sel_bet_pick bet, pb_odds = odds, pb_status = ''pending''\<rparr>],
          parlay_bets_seq := Suc (parlay_bets_seq s)\<rparr>)"

definition create_parlay_bet ::
  "string \<Rightarrow> selection list \<Rightarrow> rat \<Rightarrow> nat \<Rightarrow> db \<Rightarrow> (error + nat) \<times> db" where
  "create_parlay_bet user_id bets amount now s =
     (if \<not> is_user_verified_adult user_id s then (Inl NotVerifiedAdult, s)
      else if length bets < 2 then (Inl TooFewSelections, s)
      else case find_user user_id s of
        None \<Rightarrow> (Inl UserNotFound, s)
      | Some result \<Rightarrow>
          if wallet_balance result < amount then (Inl InsufficientFunds, s)
          else (case price_selections now s bets 1 [] of
                  Inl e \<Rightarrow> (Inl e, s)
                | Inr (total_odds, valid_bets) \<Rightarrow>
                    let potential_payout = round2 (amount * total_odds);
                        s1 = add_to_wallet user_id (- amount) s;
                        parlay_id = parlays_seq s1;
                        s2 = s1\<lparr>parlays := parlays s1 @
                                  [\<lparr>p_id = parlay_id, p_user_id = user_id, p_amount = amount,
                                    p_potential_payout = potential_payout,
                                    p_status = ''pending''\<rparr>],
                                parlays_seq := Suc parlay_id\<rparr>
                    in (Inr parlay_id, insert_parlay_bets parlay_id valid_bets s2)))"

section \<open>Settlement: \<^verbatim>\<open>simulate_game_result\<close>\<close>

text \<open>
  The scores are drawn at random by the source, from a range that depends on the sport
  detected in the home team's name. Here they are arguments of the settlement, and
  \<open>possible_scores\<close> says which pairs the draw can produce.
\<close>

fun starts_with :: "string \<Rightarrow> string \<Rightarrow> bool" where
  "starts_with [] ys = True"
| "starts_with (x # xs) [] = False"
| "starts_with (x # xs) (y # ys) = (x = y \<and> starts_with xs ys)"

fun contains :: "string \<Rightarrow> string \<Rightarrow> bool" where
  "contains xs [] = (xs = [])"
| "contains xs (y # ys) = (starts_with xs (y # ys) \<or> contains xs ys)"

definition nba_teams :: "string list" where
  "nba_teams = [''Celtics'', ''Heat'', ''Knicks'', ''76ers'', ''Nuggets'', ''Lakers'',
     ''Thunder'', ''Pelicans'', ''Timberwolves'', ''Suns'', ''Bucks'', ''Cavaliers'',
     ''Clippers'', ''Warriors'', ''Mavericks'', ''Kings'', ''Grizzlies'', ''Raptors'',
     ''Hawks'', ''Bulls'']"

definition mlb_teams :: "string list" where
  "mlb_teams = [''Yankees'', ''Red Sox'', ''Dodgers'', ''Giants'', ''Astros'', ''Rangers'',
     ''Cubs'', ''Cardinals'', ''Braves'', ''Mets'', ''Phillies'', ''Blue Jays'', ''Angels'',
     ''Padres'', ''Mariners'', ''Nationals'', ''Diamondbacks'', ''Rockies'', ''Brewers'',
     ''Rays'']"

definition nfl_teams :: "string list" where
  "nfl_teams = [''Bills'', ''Cardinals'', ''Buccaneers'', ''Seahawks'', ''49ers'',
     ''Patriots'', ''Lions'', ''Chargers'', ''Broncos'', ''Cowboys'', ''Packers'', ''Eagles'',
     ''Bears'', ''Vikings'', ''Titans'', ''Steelers'', ''Chiefs'', ''Raiders'', ''Saints'',
     ''Falcons'']"

definition detect_sport_from_team :: "string \<Rightarrow> string" where
  "detect_sport_from_team team_name =
     (if list_ex (\<lambda>t. contains t team_name) nba_teams then ''NBA''
      else if list_ex (\<lambda>t. contains t team_name) mlb_teams then ''MLB''
      else if list_ex (\<lambda>t. contains t team_name) nfl_teams then ''NFL''
      else ''NBA'')"

definition nfl_scores :: "int list" where
  "nfl_scores = [0, 3, 6, 7, 10, 13, 14, 17, 20, 21, 24, 27, 28, 31, 34, 35, 38]"

definition possible_scores :: "game_row \<Rightarrow> int \<Rightarrow> int \<Rightarrow> bool" where
  "possible_scores game home_score away_score =
     (let sport = detect_sport_from_team (g_home_team game) in
      if sport = ''NBA''
      then 90 \<le> home_score \<and> home_score \<le> 130 \<and> 90 \<le> away_score \<and> away_score \<le> 130
      else if sport = ''MLB''
      then 0 \<le> home_score \<and> home_score \<le> 10 \<and> 0 \<le> away_score \<and> away_score \<le> 10
      else if sport = ''NFL''
      then List.member nfl_scores home_score \<and> List.member nfl_scores away_score
      else 10 \<le> home_score \<and> home_score \<le> 38 \<and> 7 \<le> away_score \<and> away_score \<le> 35)"

text \<open>The outcome of one wager, as both loops of the settlement compute \<^verbatim>\<open>bet_won\<close>.\<close>

definition bet_won :: "game_row \<Rightarrow> int \<Rightarrow> int \<Rightarrow> string \<Rightarrow> string \<Rightarrow> bool" where
  "bet_won game home_score away_score bet_type bet_pick =
     (let home_won = away_score < home_score;
          total_points = home_score + away_score;
          home_covered = of_int away_score < of_int home_score + g_spread game;
          over_hit = g_over_under game < of_int total_points
      in if bet_type = ''moneyline''
         then (if bet_pick = ''home'' then home_won else \<not> home_won)
         else if bet_type = ''spread''
         then (if bet_pick = ''home'' then home_covered else \<not> home_covered)
         else if bet_type = ''over_under''
         then (if bet_pick = ''over'' then over_hit else \<not> over_hit)
         else False)"

definition won_or_lost :: "bool \<Rightarrow> string" where
  "won_or_lost won = (if won then ''won'' else ''lost'')"

text \<open>One round of the loop over the pending single bets of the game.\<close>

definition settle_bet :: "game_row \<Rightarrow> int \<Rightarrow> int \<Rightarrow> db \<Rightarrow> bet_row \<Rightarrow> db" where
  "settle_bet game home_score away_score s bet =
     (let won = bet_won game home_score away_score (b_bet_type bet) (b_bet_pick bet);
          s1 = s\<lparr>user_bets := map (\<lambda>b. if b_id b = b_id bet
                                          then b\<lparr>b_status := won_or_lost won\<rparr> else b)
                                   (user_bets s)\<rparr>
      in if won then add_to_wallet (b_user_id bet) (b_potential_payout bet) s1 else s1)"

text \<open>
  The rows of \<^verbatim>\<open>parlay_bets pb JOIN parlays p ON pb.parlay_id = p.id WHERE pb.game_id =
  :game_id AND pb.status = 'pending' AND p.status = 'pending'\<close>.
\<close>

definition pending_parlay_bets :: "nat \<Rightarrow> db \<Rightarrow> (parlay_bet_row \<times> parlay_row) list" where
  "pending_parlay_bets game_id s =
     concat (map (\<lambda>pb. map (\<lambda>p. (pb, p))
                          (filter (\<lambda>p. p_id p = pb_parlay_id pb \<and> p_status p = ''pending'')
                                  (parlays s)))
                 (filter (\<lambda>pb. pb_game_id pb = game_id \<and> pb_status pb = ''pending'')
                         (parlay_bets s)))"

text \<open>An entry of the dict \<^verbatim>\<open>parlay_results\<close>, kept in insertion order.\<close>

record parlay_result =
  r_user_id :: string
  r_potential_payout :: rat
  r_status :: string

definition note_leg ::
  "bool \<Rightarrow> parlay_row \<Rightarrow> (nat \<times> parlay_result) list \<Rightarrow> (nat \<times> parlay_result) list" where
  "note_leg won p parlay_results =
     (if \<not> won
      then (if p_id p \<notin> fst ` set parlay_results
            then parlay_results @
                   [(p_id p, \<lparr>r_user_id = p_user_id p,
                              r_potential_payout = p_potential_payout p, r_status = ''lost''\<rparr>)]
            else map (\<lambda>(k, r). if k = p_id p then (k, r\<lparr>r_status := ''lost''\<rparr>) else (k, r))
                     parlay_results)
      else (if p_id p \<notin> fst ` set parlay_results
            then parlay_results @
                   [(p_id p, \<lparr>r_user_id = p_user_id p,
                              r_potential_payout = p_potential_payout p,
                              r_status = ''pending''\<rparr>)]
            else parlay_results))"

text \<open>One round of the loop over the pending legs on the game.\<close>

definition settle_leg ::
  "game_row \<Rightarrow> int \<Rightarrow> int \<Rightarrow> db \<times> (nat \<times> parlay_result) list \<Rightarrow> parlay_bet_row \<times> parlay_row
     \<Rightarrow> db \<times> (nat \<times> parlay_result) list" where
  "settle_leg game home_score away_score acc row =
     (case (acc, row) of ((s, parlay_results), (pb, p)) \<Rightarrow>
        let won = bet_won game home_score away_score (pb_bet_type pb) (pb_bet_pick pb)
        in (s\<lparr>parlay_bets := map (\<lambda>l. if pb_id l = pb_id pb
                                           then l\<lparr>pb_status := won_or_lost won\<rparr> else l)
                                    (parlay_bets s)\<rparr>,
            note_leg won p parlay_results))"

definition set_parlay_status :: "nat \<Rightarrow> string \<Rightarrow> db \<Rightarrow> db" where
  "set_parlay_status parlay_id st s =
     s\<lparr>parlays := map (\<lambda>p. if p_id p = parlay_id then p\<lparr>p_status := st\<rparr> else p)
                       (parlays s)\<rparr>"

definition count_legs :: "nat \<Rightarrow> string \<Rightarrow> db \<Rightarrow> nat" where
  "count_legs parlay_id st s =
     length (filter (\<lambda>pb. pb_parlay_id pb = parlay_id \<and> pb_status pb = st) (parlay_bets s))"

text \<open>
  One round of the loop over \<^verbatim>\<open>parlay_results.items()\<close>. The status noted in the entry is
  not read: the parlay is decided from the legs in the store, once none is pending.
\<close>

definition complete_parlay :: "db \<Rightarrow> nat \<times> parlay_result \<Rightarrow> db" where
  "complete_parlay s entry =
     (case entry of (parlay_id, result) \<Rightarrow>
        if count_legs parlay_id ''pending'' s = 0
        then (if count_legs parlay_id ''lost'' s = 0
              then add_to_wallet (r_user_id result) (r_potential_payout result)
                     (set_parlay_status parlay_id ''won'' s)
              else set_parlay_status parlay_id ''lost'' s)
        else s)"

definition find_game :: "nat \<Rightarrow> db \<Rightarrow> game_row option" where
  "find_game game_id s = find (\<lambda>g. g_id g = game_id) (upcoming_games s)"

definition complete_game :: "nat \<Rightarrow> int \<Rightarrow> int \<Rightarrow> nat \<Rightarrow> db \<Rightarrow> db" where
  "complete_game game_id home_score away_score now s =
     s\<lparr>upcoming_games :=
         map (\<lambda>g. if g_id g = game_id
                   then g\<lparr>g_status := ''completed'', g_home_score := home_score,
                          g_away_score := away_score, g_updated_at := now\<rparr>
                   else g) (upcoming_games s)\<rparr>"

definition pending_bets :: "nat \<Rightarrow> db \<Rightarrow> bet_row list" where
  "pending_bets game_id s =
     filter (\<lambda>b. b_game_id b = game_id \<and> b_status b = ''pending'') (user_bets s)"

definition simulate_game_result ::
  "nat \<Rightarrow> int \<Rightarrow> int \<Rightarrow> nat \<Rightarrow> db \<Rightarrow> (error + unit) \<times> db" where
  "simulate_game_result game_id home_score away_score now s =
     (case find_game game_id s of
        None \<Rightarrow> (Inl GameNotFound, s)
      | Some game \<Rightarrow>
          let s1 = complete_game game_id home_score away_score now s;
              s2 = foldl (settle_bet game home_score away_score) s1 (pending_bets game_id s1);
              (s3, parlay_results) =
                 foldl (settle_leg game home_score away_score) (s2, [])
                       (pending_parlay_bets game_id s2);
              s4 = foldl complete_parlay s3 parlay_results
          in (Inr (), s4))"

section \<open>Peer-to-peer trades: \<^verbatim>\<open>create_trade_offer\<close> and \<^verbatim>\<open>respond_to_trade_offer\<close>\<close>

text \<open>An asset of an offer as the caller gives it: \<^verbatim>\<open>asset_type\<close>, \<^verbatim>\<open>asset_name\<close>, \<^verbatim>\<open>quantity\<close>.\<close>

record asset =
  as_asset_type :: string
  as_asset_name :: string
  as_quantity :: int




text \<open>
  \<^verbatim>\<open>SELECT sender_id, recipient_id, status FROM trade_offers WHERE id = :offer_id AND
  recipient_id = :user_id\<close>
\<close>

definition find_offer :: "nat \<Rightarrow> string \<Rightarrow> db \<Rightarrow> trade_offer_row option" where
  "find_offer offer_id user_id s =
     find (\<lambda>offer. o_id offer = offer_id \<and> o_recipient_id offer = Some user_id) (trade_offers s)"

definition set_offer_status :: "nat \<Rightarrow> string \<Rightarrow> nat \<Rightarrow> db \<Rightarrow> db" where
  "set_offer_status offer_id st now s =
     s\<lparr>trade_offers := map (\<lambda>offer. if o_id offer = offer_id
                                       then offer\<lparr>o_status := st, o_updated_at := now\<rparr>
                                       else offer)
                            (trade_offers s)\<rparr>"

text \<open>
  The check made for one asset at acceptance: the holding row of the asset's user is
  read from the store and compared with the quantity of this asset alone.
\<close>

definition still_held :: "db \<Rightarrow> trade_offer_asset_row \<Rightarrow> bool" where
  "still_held s asset =
     (case a_user_id asset of
        None \<Rightarrow> False
      | Some user \<Rightarrow>
          (case find_holding user (a_asset_type asset) (a_asset_name asset) s of
             None \<Rightarrow> False
           | Some result \<Rightarrow> \<not> h_quantity result < a_quantity asset))"

text \<open>
  \<^verbatim>\<open>UPDATE holdings SET quantity = quantity - :quantity WHERE user_id = :user_id AND
  asset_type = :asset_type AND asset_name = :asset_name\<close>
\<close>

definition take_from_holder :: "trade_offer_asset_row \<Rightarrow> db \<Rightarrow> db" where
  "take_from_holder asset s =
     s\<lparr>holdings :=
         map (\<lambda>h. if Some (h_user_id h) = a_user_id asset \<and>
                      h_asset_type h = a_asset_type asset \<and> h_asset_name h = a_asset_name asset
                   then h\<lparr>h_quantity := h_quantity h - a_quantity asset\<rparr> else h)
             (holdings s)\<rparr>"

definition give_to :: "string \<Rightarrow> trade_offer_asset_row \<Rightarrow> db \<Rightarrow> db" where
  "give_to user_id asset s =
     (case find_holding user_id (a_asset_type asset) (a_asset_name asset) s of
        Some result \<Rightarrow> add_to_holding (h_id result) (a_quantity asset) s
      | None \<Rightarrow> insert_holding user_id (a_asset_type asset) (a_asset_name asset)
                  (a_quantity asset) s)"

text \<open>One round of either transfer loop.\<close>

definition transfer :: "string \<Rightarrow> db \<Rightarrow> trade_offer_asset_row \<Rightarrow> db" where
  "transfer receiver s asset = give_to receiver asset (take_from_holder asset s)"

text \<open>\<^verbatim>\<open>DELETE FROM holdings WHERE quantity <= 0\<close>\<close>

definition prune_holdings :: "db \<Rightarrow> db" where
  "prune_holdings s = s\<lparr>holdings := filter (\<lambda>h. \<not> h_quantity h \<le> 0) (holdings s)\<rparr>"

text \<open>
  \<^verbatim>\<open>respond_to_trade_offer(offer_id, user_id, action)\<close>; the offer was selected by
  \<^verbatim>\<open>recipient_id = :user_id\<close>, so the recipient is \<open>user_id\<close>. Every action other than
  \<^verbatim>\<open>'reject'\<close> takes the accepting path.
\<close>

definition respond_to_trade_offer ::
  "nat \<Rightarrow> string \<Rightarrow> string \<Rightarrow> nat \<Rightarrow> db \<Rightarrow> (error + unit) \<times> db" where
  "respond_to_trade_offer offer_id user_id action now s =
     (case find_offer offer_id user_id s of
        None \<Rightarrow> (Inl OfferNotFound, s)
      | Some result \<Rightarrow>
          let sender_id = o_sender_id result; recipient_id = user_id in
          if o_status result \<noteq> ''pending'' then (Inl OfferAlreadyAnswered, s)
          else if action = ''reject''
          then (Inr (), set_offer_status offer_id ''rejected'' now s)
          else
            let assets = filter (\<lambda>a. a_trade_offer_id a = offer_id) (trade_offer_assets s);
                sender_assets = filter (\<lambda>a. a_user_id a = Some sender_id) assets;
                recipient_assets = filter (\<lambda>a. a_user_id a \<noteq> Some sender_id) assets
            in if \<not> list_all (still_held s) sender_assets then (Inl SenderLacksAsset, s)
               else if \<not> list_all (still_held s) recipient_assets
               then (Inl RecipientLacksAsset, s)
               else
                 let s1 = foldl (transfer recipient_id) s sender_assets;
                     s2 = foldl (transfer sender_id) s1 recipient_assets;
                     s3 = set_offer_status offer_id ''accepted'' now s2
                 in (Inr (), prune_holdings s3))"

section \<open>Replaying a sequence of trades on one account\<close>











section \<open>Vocabulary for the settlement\<close>

text \<open>The status a pending single bet, and a pending leg, gets from the final score.\<close>

definition bet_outcome :: "game_row \<Rightarrow> int \<Rightarrow> int \<Rightarrow> bet_row \<Rightarrow> string" where
  "bet_outcome game home_score away_score b =
     won_or_lost (bet_won game home_score away_score (b_bet_type b) (b_bet_pick b))"

definition leg_outcome :: "game_row \<Rightarrow> int \<Rightarrow> int \<Rightarrow> parlay_bet_row \<Rightarrow> string" where
  "leg_outcome game home_score away_score pb =
     won_or_lost (bet_won game home_score away_score (pb_bet_type pb) (pb_bet_pick pb))"


text \<open>The store after the loop over the single bets, and after the loop over the legs.\<close>

definition bets_settled :: "game_row \<Rightarrow> nat \<Rightarrow> int \<Rightarrow> int \<Rightarrow> nat \<Rightarrow> db \<Rightarrow> db" where
  "bets_settled game game_id hs as now s =
     foldl (settle_bet game hs as) (complete_game game_id hs as now s)
           (pending_bets game_id (complete_game game_id hs as now s))"

definition legs_settled ::
  "game_row \<Rightarrow> nat \<Rightarrow> int \<Rightarrow> int \<Rightarrow> nat \<Rightarrow> db \<Rightarrow> db \<times> (nat \<times> parlay_result) list" where
  "legs_settled game game_id hs as now s =
     foldl (settle_leg game hs as) (bets_settled game game_id hs as now s, [])
           (pending_parlay_bets game_id (bets_settled game game_id hs as now s))"

text \<open>
  A leg is due at the settlement of a game when it is a pending leg on that game of a
  pending parlay; a parlay is touched by the settlement when it is pending and has a
  pending leg on the game.
\<close>

definition leg_due :: "nat \<Rightarrow> db \<Rightarrow> parlay_bet_row \<Rightarrow> bool" where
  "leg_due game_id s l \<longleftrightarrow>
     pb_game_id l = game_id \<and> pb_status l = ''pending'' \<and>
     (\<exists>p \<in> set (parlays s). p_id p = pb_parlay_id l \<and> p_status p = ''pending'')"

definition touched :: "nat \<Rightarrow> db \<Rightarrow> parlay_row \<Rightarrow> bool" where
  "touched game_id s p \<longleftrightarrow>
     p_status p = ''pending'' \<and>
     (\<exists>pb \<in> set (parlay_bets s). pb_parlay_id pb = p_id p \<and> pb_game_id pb = game_id \<and>
                                   pb_status pb = ''pending'')"

text \<open>
  A parlay is decided in a store when none of its legs is pending there; its verdict is
  then read from its lost legs.
\<close>

definition parlay_decided :: "db \<Rightarrow> nat \<Rightarrow> bool" where
  "parlay_decided s parlay_id \<longleftrightarrow> count_legs parlay_id ''pending'' s = 0"

definition parlay_verdict :: "db \<Rightarrow> nat \<Rightarrow> string" where
  "parlay_verdict s parlay_id = (if count_legs parlay_id ''lost'' s = 0 then ''won'' else ''lost'')"

definition parlay_payout :: "db \<Rightarrow> string \<Rightarrow> nat \<times> parlay_result \<Rightarrow> rat" where
  "parlay_payout s u e =
     (if parlay_decided s (fst e) \<and> parlay_verdict s (fst e) = ''won'' \<and> r_user_id (snd e) = u
      then r_potential_payout (snd e) else 0)"




text \<open>The primary keys of the three wagering tables.\<close>

definition wagers_keyed :: "db \<Rightarrow> bool" where
  "wagers_keyed s \<longleftrightarrow>
     distinct (map b_id (user_bets s)) \<and> distinct (map p_id (parlays s)) \<and>
     distinct (map pb_id (parlay_bets s))"

section \<open>Example stores\<close>

definition empty_db :: db where
  "empty_db = \<lparr>users = [], holdings = [], holdings_seq = 1, transactions = [],
     upcoming_games = [], user_bets = [], user_bets_seq = 1, parlays = [], parlays_seq = 1,
     parlay_bets = [], parlay_bets_seq = 1, trade_offers = [], trade_offers_seq = 1,
     trade_offer_assets = []\<rparr>"

text \<open>Alice has 100 in her wallet and one share of one player.\<close>

definition alice :: user_row where
  "alice = \<lparr>u_id = ''alice'', wallet_balance = 100, is_verified_adult = Some True\<rparr>"

definition ledger_example :: db where
  "ledger_example = empty_db\<lparr>users := [alice],
     holdings := [\<lparr>h_id = 1, h_user_id = ''alice'', h_asset_type = ''Player'',
                   h_asset_name = ''Jokic'', h_quantity = 1\<rparr>],
     holdings_seq := 2\<rparr>"

text \<open>A scheduled football game, and a store where Alice can bet on it.\<close>

definition chiefs_game :: game_row where
  "chiefs_game = \<lparr>g_id = 1, g_home_team = ''Kansas City Chiefs'',
     g_away_team = ''Buffalo Bills'', g_game_date = 100, g_home_odds = 191 / 100,
     g_away_odds = 21 / 10, g_spread = - 7 / 2, g_over_under = 89 / 2,
     g_status = ''scheduled'', g_home_score = 0, g_away_score = 0, g_updated_at = 0\<rparr>"

definition betting_example :: db where
  "betting_example = empty_db\<lparr>users := [alice], upcoming_games := [chiefs_game]\<rparr>"

text \<open>Bob is registered but has not verified his age.\<close>

definition bob :: user_row where
  "bob = \<lparr>u_id = ''bob'', wallet_balance = 1000, is_verified_adult = Some False\<rparr>"

definition minor_example :: db where
  "minor_example = empty_db\<lparr>users := [bob], upcoming_games := [chiefs_game]\<rparr>"

text \<open>Two pending spread bets on the football game, one on each side.\<close>

definition spread_bets_example :: db where
  "spread_bets_example = betting_example\<lparr>
     users := [alice, bob],
     user_bets := [\<lparr>b_id = 1, b_user_id = ''alice'', b_game_id = 1, b_bet_type = ''spread'',
                     b_bet_pick = ''home'', b_amount = 10, b_potential_payout = 191 / 10,
                     b_odds = 191 / 100, b_status = ''pending''\<rparr>,
                   \<lparr>b_id = 2, b_user_id = ''bob'', b_game_id = 1, b_bet_type = ''spread'',
                     b_bet_pick = ''away'', b_amount = 10, b_potential_payout = 191 / 10,
                     b_odds = 191 / 100, b_status = ''pending''\<rparr>],
     user_bets_seq := 3\<rparr>"



















section \<open>Rejected trades\<close>

lemma ensure_demo_user_known:
  "find_user user_id s = Some u \<Longrightarrow> ensure_demo_user user_id s = s"
  by (simp add: ensure_demo_user_def)

text \<open>
  C2. A buy by a known user whose wallet balance is below the price fails with the
  insufficient-funds error, and a sell by a known user whose holding of the asset is
  below the one share sold (no holding row included) fails with the insufficient-holdings
  error; in both cases the whole store, hence the wallet, the holdings and the
  transaction log, is the one before the call.
\<close>

theorem rejected_trade_changes_nothing:
  assumes "find_user user_id s = Some u"
  shows "(wallet_balance u < price \<longrightarrow>
            execute_transaction user_id asset_type asset_name ''buy'' price now s
              = (Inl InsufficientFunds, s))
       \<and> (held_quantity user_id asset_type asset_name s < 1 \<longrightarrow>
            execute_transaction user_id asset_type asset_name ''sell'' price now s
              = (Inl NoSharesToSell, s))"
  using assms
  by (auto simp add: execute_transaction_def ensure_demo_user_known held_quantity_def
           split: option.splits)

theorem rejected_trade_changes_nothing_witness:
  "execute_transaction ''alice'' ''Player'' ''Jokic'' ''buy'' 500 7 ledger_example
     = (Inl InsufficientFunds, ledger_example)
   \<and> execute_transaction ''alice'' ''Player'' ''Tatum'' ''sell'' 40 7 ledger_example
     = (Inl NoSharesToSell, ledger_example)"
proof -
  have known: "find_user ''alice'' ledger_example = Some alice"
    by (simp add: find_user_def ledger_example_def alice_def)
  have poor: "wallet_balance alice < 500"
    by (simp add: alice_def)
  have none: "held_quantity ''alice'' ''Player'' ''Tatum'' ledger_example < 1"
    by (simp add: held_quantity_def find_holding_def holding_matches_def ledger_example_def)
  from rejected_trade_changes_nothing
         [OF known, where price = 500 and asset_type = "''Player''" and asset_name = "''Jokic''"
                      and now = 7]
  have "execute_transaction ''alice'' ''Player'' ''Jokic'' ''buy'' 500 7 ledger_example
          = (Inl InsufficientFunds, ledger_example)"
    using poor by blast
  moreover
  from rejected_trade_changes_nothing
         [OF known, where price = 40 and asset_type = "''Player''" and asset_name = "''Tatum''"
                      and now = 7]
  have "execute_transaction ''alice'' ''Player'' ''Tatum'' ''sell'' 40 7 ledger_example
          = (Inl NoSharesToSell, ledger_example)"
    using none by blast
  ultimately show ?thesis by simp
qed

section \<open>The age gate\<close>

text \<open>
  C10. For a user whose \<^verbatim>\<open>is_verified_adult\<close> flag is not true, an unknown user
  included, \<^verbatim>\<open>place_bet\<close> and \<^verbatim>\<open>create_parlay_bet\<close> fail with the age-verification
  error and return the store unchanged, whatever the stake, the game, the selections and
  the funds of the user.
\<close>

theorem unverified_user_cannot_wager:
  assumes "\<forall>u. find_user user_id s = Some u \<longrightarrow> is_verified_adult u \<noteq> Some True"
  shows "place_bet user_id game_id bet_type bet_pick amount now s = (Inl NotVerifiedAdult, s)
       \<and> create_parlay_bet user_id bets amount now s = (Inl NotVerifiedAdult, s)"
proof -
  have "\<not> is_user_verified_adult user_id s"
    using assms by (simp add: is_user_verified_adult_def split: option.splits)
  then show ?thesis
    by (simp add: place_bet_def create_parlay_bet_def)
qed

theorem unverified_user_cannot_wager_witness:
  "place_bet ''bob'' 1 ''moneyline'' ''home'' 10 0 minor_example
     = (Inl NotVerifiedAdult, minor_example)
   \<and> create_parlay_bet ''carol'' [] 10 0 minor_example = (Inl NotVerifiedAdult, minor_example)"
proof -
  have b: "\<forall>u. find_user ''bob'' minor_example = Some u \<longrightarrow> is_verified_adult u \<noteq> Some True"
    by (simp add: find_user_def minor_example_def bob_def)
  have c: "\<forall>u. find_user ''carol'' minor_example = Some u \<longrightarrow> is_verified_adult u \<noteq> Some True"
    by (simp add: find_user_def minor_example_def bob_def)
  show ?thesis
    using unverified_user_cannot_wager [OF b] unverified_user_cannot_wager [OF c] by simp
qed

section \<open>Stakes\<close>


lemma find_map_same:
  "(\<And>x. P (f x) = P x) \<Longrightarrow> find P (map f xs) = map_option f (find P xs)"
  by (induction xs) simp_all

lemma find_Some_holds: "find P xs = Some x \<Longrightarrow> P x \<and> x \<in> set xs"
  by (induction xs) (auto split: if_splits)

lemma find_user_add_to_wallet:
  "find_user v (add_to_wallet user_id x s) =
     map_option (\<lambda>u. if u_id u = user_id then u\<lparr>wallet_balance := wallet_balance u + x\<rparr> else u)
       (find_user v s)"
  unfolding find_user_def add_to_wallet_def
  by (simp add: find_map_same)




section \<open>The settlement, loop by loop\<close>

lemma find_in_filter_distinct:
  "distinct (map f xs) \<Longrightarrow> x \<in> set xs \<Longrightarrow>
     find (\<lambda>t. f t = f x) (filter P xs) = (if P x then Some x else None)"
proof (induction xs)
  case Nil
  then show ?case by simp
next
  case (Cons a xs)
  show ?case
  proof (cases "a = x")
    case True
    then have "\<forall>t \<in> set xs. f t \<noteq> f x" using Cons.prems by (auto simp add: image_iff)
    then have "find (\<lambda>t. f t = f x) (filter P xs) = None"
      by (simp add: find_None_iff)
    with True show ?thesis by simp
  next
    case False
    then have "x \<in> set xs" "f a \<noteq> f x" using Cons.prems by (auto simp add: image_iff)
    then show ?thesis using Cons by simp
  qed
qed

lemma user_bets_settle_bet:
  "user_bets (settle_bet game hs as s bet) =
     map (\<lambda>b. if b_id b = b_id bet then b\<lparr>b_status := bet_outcome game hs as bet\<rparr> else b)
         (user_bets s)"
  by (simp add: settle_bet_def Let_def add_to_wallet_def bet_outcome_def)

lemma user_bets_settle_all:
  "distinct (map b_id bets) \<Longrightarrow>
   user_bets (foldl (settle_bet game hs as) s bets) =
     map (\<lambda>b. case find (\<lambda>t. b_id t = b_id b) bets of
                 Some t \<Rightarrow> b\<lparr>b_status := bet_outcome game hs as t\<rparr>
               | None \<Rightarrow> b) (user_bets s)"
proof (induction bets arbitrary: s)
  case Nil
  then show ?case by simp
next
  case (Cons t ts)
  then have fresh: "\<forall>x \<in> set ts. b_id x \<noteq> b_id t" by (auto simp add: image_iff)
  then have none: "find (\<lambda>x. b_id x = b_id t) ts = None"
    by (simp add: find_None_iff)
  show ?case
    using Cons none by (simp add: user_bets_settle_bet comp_def cong: if_cong)
qed

lemma simulate_game_result_stages:
  "find_game game_id s = Some game \<Longrightarrow>
   simulate_game_result game_id hs as now s =
     (Inr (), foldl complete_parlay (fst (legs_settled game game_id hs as now s))
                                    (snd (legs_settled game game_id hs as now s)))"
  by (simp add: simulate_game_result_def legs_settled_def bets_settled_def Let_def
           split: prod.splits)

lemma user_bets_settle_leg [simp]:
  "user_bets (fst (settle_leg game hs as acc row)) = user_bets (fst acc)"
  by (simp add: settle_leg_def Let_def split: prod.splits)

lemma user_bets_settle_legs [simp]:
  "user_bets (fst (foldl (settle_leg game hs as) acc rows)) = user_bets (fst acc)"
  by (induction rows arbitrary: acc) simp_all

lemma user_bets_complete_parlay [simp]:
  "user_bets (complete_parlay s entry) = user_bets s"
  by (simp add: complete_parlay_def set_parlay_status_def add_to_wallet_def split: prod.splits)

lemma user_bets_complete_parlays [simp]:
  "user_bets (foldl complete_parlay s entries) = user_bets s"
  by (induction entries arbitrary: s) simp_all

lemma user_bets_complete_game [simp]:
  "user_bets (complete_game game_id hs as now s) = user_bets s"
  by (simp add: complete_game_def)

lemma distinct_map_filter': "distinct (map f xs) \<Longrightarrow> distinct (map f (filter P xs))"
  by (induction xs) auto

lemma simulate_user_bets:
  assumes "find_game game_id s = Some game" and "distinct (map b_id (user_bets s))"
  shows "user_bets (snd (simulate_game_result game_id hs as now s)) =
           map (\<lambda>b. if b_game_id b = game_id \<and> b_status b = ''pending''
                     then b\<lparr>b_status := bet_outcome game hs as b\<rparr> else b) (user_bets s)"
proof -
  let ?P = "\<lambda>b. b_game_id b = game_id \<and> b_status b = ''pending''"
  have d: "distinct (map b_id (filter ?P (user_bets s)))"
    using assms(2) by (rule distinct_map_filter')
  have "user_bets (snd (simulate_game_result game_id hs as now s)) =
          user_bets (bets_settled game game_id hs as now s)"
    by (simp add: simulate_game_result_stages [OF assms(1)] legs_settled_def)
  also have "\<dots> = map (\<lambda>b. case find (\<lambda>t. b_id t = b_id b) (filter ?P (user_bets s)) of
                 Some t \<Rightarrow> b\<lparr>b_status := bet_outcome game hs as t\<rparr>
               | None \<Rightarrow> b) (user_bets s)"
    using user_bets_settle_all [OF d] by (simp add: bets_settled_def pending_bets_def)
  also have "\<dots> = map (\<lambda>b. if ?P b then b\<lparr>b_status := bet_outcome game hs as b\<rparr> else b)
                        (user_bets s)"
    by (rule map_cong) (simp_all add: find_in_filter_distinct [OF assms(2)])
  finally show ?thesis .
qed

lemma find_user_add_to_wallet_None:
  "find_user v (add_to_wallet user_id x s) = None \<longleftrightarrow> find_user v s = None"
  by (simp add: find_user_add_to_wallet)





lemma parlay_bets_settle_leg:
  "parlay_bets (fst (settle_leg game hs as (s, rs) (pb, p))) =
     map (\<lambda>l. if pb_id l = pb_id pb then l\<lparr>pb_status := leg_outcome game hs as pb\<rparr> else l)
         (parlay_bets s)"
  by (simp add: settle_leg_def Let_def leg_outcome_def)

lemma parlay_bets_settle_legs:
  "distinct (map (\<lambda>t. pb_id (fst t)) rows) \<Longrightarrow>
   parlay_bets (fst (foldl (settle_leg game hs as) (s, rs) rows)) =
     map (\<lambda>l. case find (\<lambda>t. pb_id (fst t) = pb_id l) rows of
                 Some t \<Rightarrow> l\<lparr>pb_status := leg_outcome game hs as (fst t)\<rparr>
               | None \<Rightarrow> l) (parlay_bets s)"
proof (induction rows arbitrary: s rs)
  case Nil
  then show ?case by simp
next
  case (Cons t ts)
  obtain pb p where t: "t = (pb, p)" by (cases t)
  obtain s1 rs1 where step: "settle_leg game hs as (s, rs) (pb, p) = (s1, rs1)"
    by (cases "settle_leg game hs as (s, rs) (pb, p)")
  have s1: "parlay_bets s1 =
     map (\<lambda>l. if pb_id l = pb_id pb then l\<lparr>pb_status := leg_outcome game hs as pb\<rparr> else l)
         (parlay_bets s)"
    using parlay_bets_settle_leg [of game hs as s rs pb p] step by simp
  from Cons.prems t have fresh: "\<forall>x \<in> set ts. pb_id (fst x) \<noteq> pb_id pb"
    by (auto simp add: image_iff)
  then have none: "find (\<lambda>x. pb_id (fst x) = pb_id pb) ts = None"
    by (auto simp add: find_None_iff)
  from Cons.prems have d: "distinct (map (\<lambda>t. pb_id (fst t)) ts)" by simp
  show ?case
    using Cons.IH [OF d, of s1 rs1] none
    by (simp add: t step s1 comp_def cong: if_cong)
qed

lemma others_settle_leg [simp]:
  "users (fst (settle_leg game hs as acc row)) = users (fst acc)"
  "parlays (fst (settle_leg game hs as acc row)) = parlays (fst acc)"
  "upcoming_games (fst (settle_leg game hs as acc row)) = upcoming_games (fst acc)"
  by (simp_all add: settle_leg_def Let_def split: prod.splits)

lemma others_settle_legs [simp]:
  "users (fst (foldl (settle_leg game hs as) acc rows)) = users (fst acc)"
  "parlays (fst (foldl (settle_leg game hs as) acc rows)) = parlays (fst acc)"
  "upcoming_games (fst (foldl (settle_leg game hs as) acc rows)) = upcoming_games (fst acc)"
  by (induction rows arbitrary: acc) simp_all

lemma others_settle_bet [simp]:
  "parlays (settle_bet game hs as s bet) = parlays s"
  "parlay_bets (settle_bet game hs as s bet) = parlay_bets s"
  "upcoming_games (settle_bet game hs as s bet) = upcoming_games s"
  by (simp_all add: settle_bet_def Let_def add_to_wallet_def)

lemma others_settle_bets [simp]:
  "parlays (foldl (settle_bet game hs as) s bets) = parlays s"
  "parlay_bets (foldl (settle_bet game hs as) s bets) = parlay_bets s"
  "upcoming_games (foldl (settle_bet game hs as) s bets) = upcoming_games s"
  by (induction bets arbitrary: s) simp_all

lemma others_complete_game [simp]:
  "parlays (complete_game g hs as now s) = parlays s"
  "parlay_bets (complete_game g hs as now s) = parlay_bets s"
  "users (complete_game g hs as now s) = users s"
  by (simp_all add: complete_game_def)

lemma others_complete_parlay [simp]:
  "parlay_bets (complete_parlay s entry) = parlay_bets s"
  "upcoming_games (complete_parlay s entry) = upcoming_games s"
  by (simp_all add: complete_parlay_def set_parlay_status_def add_to_wallet_def split: prod.splits)

lemma others_complete_parlays [simp]:
  "parlay_bets (foldl complete_parlay s entries) = parlay_bets s"
  "upcoming_games (foldl complete_parlay s entries) = upcoming_games s"
  by (induction entries arbitrary: s) simp_all

lemma bets_settled_frame [simp]:
  "parlays (bets_settled game g hs as now s) = parlays s"
  "parlay_bets (bets_settled game g hs as now s) = parlay_bets s"
  by (simp_all add: bets_settled_def)

lemma pending_parlay_bets_bets_settled [simp]:
  "pending_parlay_bets g (bets_settled game g' hs as now s) = pending_parlay_bets g s"
  by (simp add: pending_parlay_bets_def)

lemma set_pending_parlay_bets:
  "set (pending_parlay_bets g s) =
     {(pb, p). pb \<in> set (parlay_bets s) \<and> pb_game_id pb = g \<and> pb_status pb = ''pending'' \<and>
               p \<in> set (parlays s) \<and> p_id p = pb_parlay_id pb \<and> p_status p = ''pending''}"
  by (auto simp add: pending_parlay_bets_def)

lemma filter_key_short:
  "distinct (map f xs) \<Longrightarrow> length (filter (\<lambda>x. f x = k \<and> Q x) xs) \<le> 1"
proof (induction xs)
  case Nil
  then show ?case by simp
next
  case (Cons a xs)
  show ?case
  proof (cases "f a = k")
    case True
    then have "\<forall>x \<in> set xs. f x \<noteq> k" using Cons.prems by (auto simp add: image_iff)
    then have "filter (\<lambda>x. f x = k \<and> Q x) xs = []" by (simp add: filter_empty_conv)
    then show ?thesis by simp
  next
    case False
    then show ?thesis using Cons by simp
  qed
qed

lemma distinct_paired_ids:
  assumes "distinct (map f legs)" and "\<And>pb. length (F pb) \<le> 1"
  shows "distinct (map (\<lambda>t. f (fst t)) (concat (map (\<lambda>pb. map (Pair pb) (F pb)) (filter P legs))))"
  using assms(1)
proof (induction legs)
  case Nil
  then show ?case by simp
next
  case (Cons a legs)
  have one: "distinct (map (\<lambda>t. f (fst t)) (map (Pair a) (F a)))"
  proof (cases "F a")
    case Nil
    then show ?thesis by simp
  next
    case (Cons x xs)
    with assms(2) [of a] have "xs = []" by simp
    with Cons show ?thesis by simp
  qed
  have rest: "set (map (\<lambda>t. f (fst t)) (concat (map (\<lambda>pb. map (Pair pb) (F pb)) (filter P legs))))
                \<subseteq> f ` set legs"
    by auto
  have "f a \<notin> f ` set legs" using Cons.prems by simp
  with rest have disj:
    "set (map (\<lambda>t. f (fst t)) (map (Pair a) (F a))) \<inter>
     set (map (\<lambda>t. f (fst t)) (concat (map (\<lambda>pb. map (Pair pb) (F pb)) (filter P legs)))) = {}"
    by auto
  from Cons have ih:
    "distinct (map (\<lambda>t. f (fst t)) (concat (map (\<lambda>pb. map (Pair pb) (F pb)) (filter P legs))))"
    by simp
  show ?case
    using one ih disj by (cases "P a") (simp_all del: map_map set_map set_concat)
qed

lemma distinct_pending_parlay_bets:
  assumes "distinct (map pb_id (parlay_bets s))" and "distinct (map p_id (parlays s))"
  shows "distinct (map (\<lambda>t. pb_id (fst t)) (pending_parlay_bets g s))"
  unfolding pending_parlay_bets_def
  by (rule distinct_paired_ids [OF assms(1)]) (rule filter_key_short [OF assms(2)])

lemma find_due_leg:
  assumes "distinct (map pb_id (parlay_bets s))" and "l \<in> set (parlay_bets s)"
  shows "(case find (\<lambda>t. pb_id (fst t) = pb_id l) (pending_parlay_bets g s) of
            Some t \<Rightarrow> l\<lparr>pb_status := leg_outcome game hs as (fst t)\<rparr>
          | None \<Rightarrow> l)
       = (if leg_due g s l then l\<lparr>pb_status := leg_outcome game hs as l\<rparr> else l)"
proof (cases "find (\<lambda>t. pb_id (fst t) = pb_id l) (pending_parlay_bets g s)")
  case None
  then have "\<forall>t \<in> set (pending_parlay_bets g s). pb_id (fst t) \<noteq> pb_id l"
    by (auto simp add: find_None_iff)
  then have "\<not> leg_due g s l"
    using assms(2) by (fastforce simp add: set_pending_parlay_bets leg_due_def)
  with None show ?thesis by simp
next
  case (Some t)
  then have t: "t \<in> set (pending_parlay_bets g s)" "pb_id (fst t) = pb_id l"
    using find_Some_holds [OF Some] by simp_all
  then have "fst t \<in> set (parlay_bets s)"
    by (auto simp add: set_pending_parlay_bets)
  with t(2) assms have eq: "fst t = l"
    by (simp add: distinct_map inj_on_def)
  with t(1) have "leg_due g s l"
    by (auto simp add: set_pending_parlay_bets leg_due_def)
  with Some eq show ?thesis by simp
qed

lemma legs_settled_parlay_bets:
  assumes "distinct (map pb_id (parlay_bets s))" and "distinct (map p_id (parlays s))"
  shows "parlay_bets (fst (legs_settled game g hs as now s)) =
           map (\<lambda>l. if leg_due g s l then l\<lparr>pb_status := leg_outcome game hs as l\<rparr> else l)
               (parlay_bets s)"
proof -
  have "parlay_bets (fst (legs_settled game g hs as now s)) =
     map (\<lambda>l. case find (\<lambda>t. pb_id (fst t) = pb_id l) (pending_parlay_bets g s) of
                 Some t \<Rightarrow> l\<lparr>pb_status := leg_outcome game hs as (fst t)\<rparr>
               | None \<Rightarrow> l) (parlay_bets s)"
    using parlay_bets_settle_legs [OF distinct_pending_parlay_bets [OF assms]]
    by (simp add: legs_settled_def)
  also have "\<dots> = map (\<lambda>l. if leg_due g s l then l\<lparr>pb_status := leg_outcome game hs as l\<rparr>
                            else l) (parlay_bets s)"
    by (rule map_cong) (simp_all add: find_due_leg [OF assms(1)])
  finally show ?thesis .
qed

lemma count_legs_cong: "parlay_bets s' = parlay_bets s \<Longrightarrow> count_legs k st s' = count_legs k st s"
  by (simp add: count_legs_def)

lemma parlays_complete_parlay:
  "parlays (complete_parlay s (k, r)) =
     map (\<lambda>p. if p_id p = k \<and> parlay_decided s k
               then p\<lparr>p_status := parlay_verdict s k\<rparr> else p) (parlays s)"
proof (cases "parlay_decided s k")
  case True
  then show ?thesis
    by (simp add: complete_parlay_def set_parlay_status_def add_to_wallet_def parlay_decided_def
          parlay_verdict_def)
next
  case False
  have "map (\<lambda>p. p) (parlays s) = parlays s" by simp
  with False show ?thesis
    by (simp add: complete_parlay_def parlay_decided_def)
qed

lemma decided_complete_parlay [simp]:
  "parlay_decided (complete_parlay s e) k = parlay_decided s k"
  "parlay_verdict (complete_parlay s e) k = parlay_verdict s k"
  by (simp_all add: parlay_decided_def parlay_verdict_def count_legs_def)

lemma parlays_complete_parlays:
  "parlays (foldl complete_parlay s rs) =
     map (\<lambda>p. if p_id p \<in> fst ` set rs \<and> parlay_decided s (p_id p)
               then p\<lparr>p_status := parlay_verdict s (p_id p)\<rparr> else p) (parlays s)"
proof (induction rs arbitrary: s)
  case Nil
  then show ?case by simp
next
  case (Cons e rs)
  obtain k r where e: "e = (k, r)" by (cases e)
  have "parlays (foldl complete_parlay s (e # rs)) =
          map (\<lambda>p. if p_id p \<in> fst ` set rs \<and> parlay_decided s (p_id p)
                    then p\<lparr>p_status := parlay_verdict s (p_id p)\<rparr> else p)
              (map (\<lambda>p. if p_id p = k \<and> parlay_decided s k
                         then p\<lparr>p_status := parlay_verdict s k\<rparr> else p) (parlays s))"
    by (simp only: e foldl_Cons Cons.IH parlays_complete_parlay decided_complete_parlay)
  also have "\<dots> = map (\<lambda>p. if p_id p \<in> fst ` set (e # rs) \<and> parlay_decided s (p_id p)
               then p\<lparr>p_status := parlay_verdict s (p_id p)\<rparr> else p) (parlays s)"
    unfolding map_map by (rule map_cong) (auto simp add: e)
  finally show ?case .
qed

lemma find_user_set_parlay_status [simp]:
  "find_user u (set_parlay_status k st s) = find_user u s"
  by (simp add: find_user_def set_parlay_status_def)



lemma parlay_payout_complete_parlay [simp]:
  "parlay_payout (complete_parlay s e) u x = parlay_payout s u x"
  by (simp add: parlay_payout_def)


lemma snd_settle_leg:
  "snd (settle_leg game hs as (s, rs) (pb, p)) =
     note_leg (bet_won game hs as (pb_bet_type pb) (pb_bet_pick pb)) p rs"
  by (simp add: settle_leg_def Let_def)

lemma keys_note_leg: "fst ` set (note_leg w p rs) = insert (p_id p) (fst ` set rs)"
  by (auto simp add: note_leg_def image_iff split: if_splits prod.splits) force+




lemma settle_leg_step:
  "settle_leg game hs as (s, rs) (pb, p) =
     (fst (settle_leg game hs as (s, rs) (pb, p)),
      note_leg (bet_won game hs as (pb_bet_type pb) (pb_bet_pick pb)) p rs)"
  by (simp add: settle_leg_def Let_def)


lemma results_keys:
  "fst ` set (snd (foldl (settle_leg game hs as) (s, rs) rows)) =
     fst ` set rs \<union> (\<lambda>t. p_id (snd t)) ` set rows"
proof (induction rows arbitrary: s rs)
  case Nil
  then show ?case by simp
next
  case (Cons t rows)
  obtain pb p where t: "t = (pb, p)" by (cases t)
  show ?case
    unfolding t foldl_Cons
    by (subst settle_leg_step) (simp add: Cons.IH keys_note_leg)
qed


lemma touched_ids:
  "(\<lambda>t. p_id (snd t)) ` set (pending_parlay_bets g s) =
     p_id ` {p \<in> set (parlays s). touched g s p}"
  by (auto simp add: set_pending_parlay_bets touched_def image_iff) force+

lemma touched_by_id:
  assumes "distinct (map p_id (parlays s))" and "p \<in> set (parlays s)"
  shows "p_id p \<in> p_id ` {q \<in> set (parlays s). touched g s q} \<longleftrightarrow> touched g s p"
proof
  assume "p_id p \<in> p_id ` {q \<in> set (parlays s). touched g s q}"
  then obtain q where q: "q \<in> set (parlays s)" "touched g s q" "p_id q = p_id p" by auto
  with assms have "q = p" by (simp add: distinct_map inj_on_def)
  with q show "touched g s p" by simp
next
  assume "touched g s p"
  with assms(2) show "p_id p \<in> p_id ` {q \<in> set (parlays s). touched g s q}" by auto
qed

lemma parlay_bets_final:
  "find_game g s = Some game \<Longrightarrow>
   parlay_bets (snd (simulate_game_result g hs as now s)) =
     parlay_bets (fst (legs_settled game g hs as now s))"
  by (simp add: simulate_game_result_stages)

lemma decided_final:
  assumes "find_game g s = Some game"
  shows "parlay_decided (fst (legs_settled game g hs as now s)) k =
           parlay_decided (snd (simulate_game_result g hs as now s)) k"
    and "parlay_verdict (fst (legs_settled game g hs as now s)) k =
           parlay_verdict (snd (simulate_game_result g hs as now s)) k"
  by (simp_all add: parlay_decided_def parlay_verdict_def count_legs_def
        parlay_bets_final [OF assms])

lemma results_keys_final:
  "fst ` set (snd (legs_settled game g hs as now s)) =
     p_id ` {p \<in> set (parlays s). touched g s p}"
  by (simp add: legs_settled_def results_keys touched_ids)

lemma simulate_parlays:
  assumes "find_game g s = Some game" and "distinct (map p_id (parlays s))"
  shows "parlays (snd (simulate_game_result g hs as now s)) =
           map (\<lambda>p. if touched g s p \<and>
                        parlay_decided (snd (simulate_game_result g hs as now s)) (p_id p)
                     then p\<lparr>p_status :=
                            parlay_verdict (snd (simulate_game_result g hs as now s)) (p_id p)\<rparr>
                     else p) (parlays s)"
proof -
  let ?s3 = "fst (legs_settled game g hs as now s)"
  let ?rs = "snd (legs_settled game g hs as now s)"
  let ?s' = "snd (simulate_game_result g hs as now s)"
  have p3: "parlays ?s3 = parlays s" by (simp add: legs_settled_def)
  have "parlays ?s' = parlays (foldl complete_parlay ?s3 ?rs)"
    by (simp add: simulate_game_result_stages [OF assms(1)])
  also have "\<dots> = map (\<lambda>p. if p_id p \<in> fst ` set ?rs \<and> parlay_decided ?s3 (p_id p)
               then p\<lparr>p_status := parlay_verdict ?s3 (p_id p)\<rparr> else p) (parlays s)"
    by (simp only: parlays_complete_parlays p3)
  also have "\<dots> = map (\<lambda>p. if touched g s p \<and> parlay_decided ?s' (p_id p)
               then p\<lparr>p_status := parlay_verdict ?s' (p_id p)\<rparr> else p) (parlays s)"
    by (rule map_cong)
       (simp_all only: results_keys_final decided_final [OF assms(1)]
          touched_by_id [OF assms(2)])
  finally show ?thesis .
qed






section \<open>Settling a game twice\<close>

lemma simulate_ok:
  "find_game g s = Some game \<Longrightarrow> fst (simulate_game_result g hs as now s) = Inr ()"
  by (simp add: simulate_game_result_stages)

lemma users_final:
  "find_game g s = Some game \<Longrightarrow>
   pending_bets g s = [] \<Longrightarrow> pending_parlay_bets g s = [] \<Longrightarrow>
   simulate_game_result g hs as now s = (Inr (), complete_game g hs as now s)"
proof -
  assume game: "find_game g s = Some game"
    and nb: "pending_bets g s = []" and nl: "pending_parlay_bets g s = []"
  have b: "pending_bets g (complete_game g hs as now s) = []"
    using nb by (simp add: pending_bets_def)
  then have s2: "bets_settled game g hs as now s = complete_game g hs as now s"
    by (simp add: bets_settled_def)
  have "pending_parlay_bets g (complete_game g hs as now s) = []"
    using nl by (simp add: pending_parlay_bets_def)
  then have "legs_settled game g hs as now s = (complete_game g hs as now s, [])"
    by (simp add: legs_settled_def s2)
  then show ?thesis
    by (simp add: simulate_game_result_stages [OF game])
qed

lemma find_game_complete_game:
  "find_game g s = Some game \<Longrightarrow> find_game g' (complete_game g hs as now s) \<noteq> None
     \<longleftrightarrow> find_game g' s \<noteq> None"
  by (simp add: find_game_def complete_game_def find_map_same)

lemma won_or_lost_not_pending [simp]: "won_or_lost w \<noteq> ''pending''"
  by (simp add: won_or_lost_def)

lemma verdict_not_pending [simp]: "parlay_verdict s k \<noteq> ''pending''"
  by (simp add: parlay_verdict_def)

lemma no_pending_bets_after:
  assumes "find_game g s = Some game" and "distinct (map b_id (user_bets s))"
  shows "pending_bets g (snd (simulate_game_result g hs as now s)) = []"
proof -
  let ?upd = "\<lambda>b. if b_game_id b = g \<and> b_status b = ''pending''
                   then b\<lparr>b_status := bet_outcome game hs as b\<rparr> else b"
  have "\<not> (b_game_id (?upd b) = g \<and> b_status (?upd b) = ''pending'')" for b
    by (cases "b_game_id b = g \<and> b_status b = ''pending''") (simp_all add: bet_outcome_def)
  then have "filter (\<lambda>b. b_game_id b = g \<and> b_status b = ''pending'') (map ?upd (user_bets s)) = []"
    unfolding filter_empty_conv by (metis (no_types, lifting) imageE list.set_map)
  then show ?thesis
    by (simp only: pending_bets_def simulate_user_bets [OF assms])
qed

lemma no_pending_legs_after:
  assumes game: "find_game g s = Some game" and keyed: "wagers_keyed s"
  shows "pending_parlay_bets g (snd (simulate_game_result g hs as now s)) = []"
proof -
  let ?s' = "snd (simulate_game_result g hs as now s)"
  from keyed have dl: "distinct (map pb_id (parlay_bets s))" and dp: "distinct (map p_id (parlays s))"
    by (simp_all add: wagers_keyed_def)
  have legs: "parlay_bets ?s' =
      map (\<lambda>l. if leg_due g s l then l\<lparr>pb_status := leg_outcome game hs as l\<rparr> else l)
          (parlay_bets s)"
    by (simp only: parlay_bets_final [OF game] legs_settled_parlay_bets [OF dl dp])
  have "set (pending_parlay_bets g ?s') = {}"
  proof (rule ccontr)
    assume "set (pending_parlay_bets g ?s') \<noteq> {}"
    then obtain pb p where pb: "pb \<in> set (parlay_bets ?s')" "pb_game_id pb = g"
        "pb_status pb = ''pending''"
      and p: "p \<in> set (parlays ?s')" "p_id p = pb_parlay_id pb" "p_status p = ''pending''"
      by (auto simp add: set_pending_parlay_bets)
    from pb(1) legs obtain l where l: "l \<in> set (parlay_bets s)"
        "pb = (if leg_due g s l then l\<lparr>pb_status := leg_outcome game hs as l\<rparr> else l)"
      by auto
    have notdue: "\<not> leg_due g s l"
    proof
      assume "leg_due g s l"
      with l(2) pb(3) show False by (simp add: leg_outcome_def)
    qed
    with l(2) have eq: "pb = l" by simp
    from p(1) simulate_parlays [OF game dp, of hs as now]
    obtain q where q: "q \<in> set (parlays s)"
        "p = (if touched g s q \<and> parlay_decided ?s' (p_id q)
              then q\<lparr>p_status := parlay_verdict ?s' (p_id q)\<rparr> else q)"
      by auto
    from q(2) p(3) have "p = q"
      by (cases "touched g s q \<and> parlay_decided ?s' (p_id q)") simp_all
    with q(1) p(2,3) eq pb(2,3) have "leg_due g s l"
      by (auto simp add: leg_due_def)
    with notdue show False ..
  qed
  then show ?thesis by simp
qed

lemma find_game_after:
  assumes "find_game g s = Some game"
  shows "\<exists>game'. find_game g (snd (simulate_game_result g hs as now s)) = Some game'"
proof -
  have "upcoming_games (snd (simulate_game_result g hs as now s)) =
          upcoming_games (complete_game g hs as now s)"
    by (simp add: simulate_game_result_stages [OF assms] legs_settled_def bets_settled_def)
  then have "find_game g (snd (simulate_game_result g hs as now s)) =
          find_game g (complete_game g hs as now s)"
    by (simp add: find_game_def)
  also have "\<dots> \<noteq> None"
    using assms by (simp add: find_game_def complete_game_def find_map_same)
  finally show ?thesis by auto
qed

text \<open>
  The settlement has no guard on the status of the game. Settling the football game at
  24-20 and then again at 10-27 succeeds both times, and the second call replaces the
  recorded score.
\<close>

theorem second_settlement_is_not_rejected:
  "possible_scores chiefs_game 24 20 \<and> possible_scores chiefs_game 10 27
   \<and> fst (simulate_game_result 1 24 20 50 spread_bets_example) = Inr ()
   \<and> map (\<lambda>g. (g_status g, g_home_score g, g_away_score g))
        (upcoming_games (snd (simulate_game_result 1 24 20 50 spread_bets_example)))
       = [(''completed'', 24, 20)]
   \<and> fst (simulate_game_result 1 10 27 60
             (snd (simulate_game_result 1 24 20 50 spread_bets_example))) = Inr ()
   \<and> map (\<lambda>g. (g_status g, g_home_score g, g_away_score g))
        (upcoming_games (snd (simulate_game_result 1 10 27 60
                                (snd (simulate_game_result 1 24 20 50 spread_bets_example)))))
       = [(''completed'', 10, 27)]"
  by code_simp

text \<open>
  C3, as the code has it. Settling a game that a first call has settled is not rejected:
  the second call succeeds as well, and it leaves every single bet, every parlay, every
  parlay leg and every wallet as the first call left them.
\<close>

theorem second_settlement_keeps_wagers_and_wallets:
  assumes "find_game g s = Some game" and "wagers_keyed s"
  shows "fst (simulate_game_result g h1 a1 t1 s) = Inr ()
       \<and> fst (simulate_game_result g h2 a2 t2 (snd (simulate_game_result g h1 a1 t1 s))) = Inr ()
       \<and> user_bets (snd (simulate_game_result g h2 a2 t2 (snd (simulate_game_result g h1 a1 t1 s))))
           = user_bets (snd (simulate_game_result g h1 a1 t1 s))
       \<and> parlays (snd (simulate_game_result g h2 a2 t2 (snd (simulate_game_result g h1 a1 t1 s))))
           = parlays (snd (simulate_game_result g h1 a1 t1 s))
       \<and> parlay_bets (snd (simulate_game_result g h2 a2 t2 (snd (simulate_game_result g h1 a1 t1 s))))
           = parlay_bets (snd (simulate_game_result g h1 a1 t1 s))
       \<and> users (snd (simulate_game_result g h2 a2 t2 (snd (simulate_game_result g h1 a1 t1 s))))
           = users (snd (simulate_game_result g h1 a1 t1 s))"
proof -
  let ?s1 = "snd (simulate_game_result g h1 a1 t1 s)"
  from assms(2) have db: "distinct (map b_id (user_bets s))" by (simp add: wagers_keyed_def)
  obtain game' where g': "find_game g ?s1 = Some game'"
    using find_game_after [OF assms(1)] by blast
  have "simulate_game_result g h2 a2 t2 ?s1 = (Inr (), complete_game g h2 a2 t2 ?s1)"
    by (rule users_final [OF g' no_pending_bets_after [OF assms(1) db]
               no_pending_legs_after [OF assms]])
  then show ?thesis
    by (simp add: simulate_ok [OF assms(1)])
qed

theorem second_settlement_keeps_wagers_and_wallets_witness:
  "fst (simulate_game_result 1 10 27 60
          (snd (simulate_game_result 1 24 20 50 spread_bets_example))) = Inr ()
   \<and> map b_status (user_bets (snd (simulate_game_result 1 10 27 60
          (snd (simulate_game_result 1 24 20 50 spread_bets_example))))) = [''won'', ''lost'']
   \<and> map wallet_balance (users (snd (simulate_game_result 1 10 27 60
          (snd (simulate_game_result 1 24 20 50 spread_bets_example))))) = [1191 / 10, 1000]"
proof -
  have g: "find_game 1 spread_bets_example = Some chiefs_game"
    by (simp add: find_game_def spread_bets_example_def betting_example_def chiefs_game_def)
  have k: "wagers_keyed spread_bets_example"
    by (simp add: wagers_keyed_def spread_bets_example_def betting_example_def empty_db_def)
  have first: "map b_status (user_bets (snd (simulate_game_result 1 24 20 50 spread_bets_example)))
                 = [''won'', ''lost'']"
    "map wallet_balance (users (snd (simulate_game_result 1 24 20 50 spread_bets_example)))
       = [1191 / 10, 1000]"
    by code_simp+
  from second_settlement_keeps_wagers_and_wallets [OF g k, of 24 20 50 10 27 60] first
  show ?thesis by simp
qed

section \<open>Spread and total lines\<close>

text \<open>
  With the home line at -3.5 and a final score of 24-20 the comparison
  \<open>24 - 3.5 > 20\<close> holds: the home pick is settled as won and the away pick as lost.
\<close>

theorem home_minus_3_5_wins_at_24_20:
  "possible_scores chiefs_game 24 20
   \<and> g_spread chiefs_game = - 7 / 2
   \<and> map (\<lambda>b. (b_bet_pick b, b_status b))
        (user_bets (snd (simulate_game_result 1 24 20 50 spread_bets_example)))
       = [(''home'', ''won''), (''away'', ''lost'')]"
  by code_simp

text \<open>
  C7, as the code has it. For a pending spread bet on a game whose spread is -3.5,
  settled at home 24, away 20: \<open>24 + (-3.5) = 20.5\<close> exceeds 20, so the home pick is
  settled won and every other pick lost.
\<close>

theorem spread_bet_at_minus_3_5_and_24_20:
  assumes "find_game g s = Some game" and "g_spread game = - 7 / 2"
    and "distinct (map b_id (user_bets s))"
    and "b \<in> set (user_bets s)" and "b_game_id b = g" and "b_status b = ''pending''"
    and "b_bet_type b = ''spread''"
  shows "of_int 20 < of_int 24 + g_spread game
       \<and> b\<lparr>b_status := (if b_bet_pick b = ''home'' then ''won'' else ''lost'')\<rparr>
           \<in> set (user_bets (snd (simulate_game_result g 24 20 now s)))"
proof -
  have covered: "(of_int 20 :: rat) < of_int 24 + g_spread game"
    using assms(2) by simp
  then have "bet_outcome game 24 20 b = (if b_bet_pick b = ''home'' then ''won'' else ''lost'')"
    using assms(7) by (simp add: bet_outcome_def bet_won_def won_or_lost_def Let_def)
  moreover have "b\<lparr>b_status := bet_outcome game 24 20 b\<rparr>
                   \<in> set (user_bets (snd (simulate_game_result g 24 20 now s)))"
    unfolding simulate_user_bets [OF assms(1,3)] using assms(4,5,6) by force
  ultimately show ?thesis using covered by simp
qed

theorem spread_bet_at_minus_3_5_and_24_20_witness:
  "list_ex (\<lambda>b. b_id b = 2 \<and> b_bet_pick b = ''away'' \<and> b_status b = ''lost'')
     (user_bets (snd (simulate_game_result 1 24 20 50 spread_bets_example)))"
proof -
  let ?b = "\<lparr>b_id = 2, b_user_id = ''bob'', b_game_id = 1, b_bet_type = ''spread'',
             b_bet_pick = ''away'', b_amount = 10, b_potential_payout = 191 / 10,
             b_odds = 191 / 100, b_status = ''pending''\<rparr>"
  have g: "find_game 1 spread_bets_example = Some chiefs_game"
    by (simp add: find_game_def spread_bets_example_def betting_example_def chiefs_game_def)
  have sp: "g_spread chiefs_game = - 7 / 2" by (simp add: chiefs_game_def)
  have d: "distinct (map b_id (user_bets spread_bets_example))"
    by (simp add: spread_bets_example_def)
  have m: "?b \<in> set (user_bets spread_bets_example)"
    by (simp add: spread_bets_example_def)
  from spread_bet_at_minus_3_5_and_24_20 [OF g sp d m, of 50]
  have "?b\<lparr>b_status := ''lost''\<rparr>
          \<in> set (user_bets (snd (simulate_game_result 1 24 20 50 spread_bets_example)))"
    by simp
  then show ?thesis
    unfolding list_ex_iff by (rule bexI [rotated]) simp
qed


section \<open>Cost basis of a sale\<close>


section \<open>Accepting a trade offer\<close>

text \<open>An offer that fails either check is answered with an error and changes nothing.\<close>

lemma stale_offer_changes_nothing:
  assumes "find_offer offer_id user_id s = Some offer" and "o_status offer = ''pending''"
    and "action \<noteq> ''reject''"
    and "\<not> list_all (still_held s)
             (filter (\<lambda>a. a_trade_offer_id a = offer_id) (trade_offer_assets s))"
  shows "snd (respond_to_trade_offer offer_id user_id action now s) = s
       \<and> fst (respond_to_trade_offer offer_id user_id action now s)
           \<in> {Inl SenderLacksAsset, Inl RecipientLacksAsset}"
proof -
  let ?assets = "filter (\<lambda>a. a_trade_offer_id a = offer_id) (trade_offer_assets s)"
  let ?mine = "\<lambda>a. a_user_id a = Some (o_sender_id offer)"
  from assms(4) obtain a where a: "a \<in> set ?assets" "\<not> still_held s a"
    by (auto simp add: list_all_iff)
  then have "\<not> list_all (still_held s) (filter ?mine ?assets)
           \<or> \<not> list_all (still_held s) (filter (\<lambda>a. \<not> ?mine a) ?assets)"
    by (cases "?mine a") (auto simp add: list_all_iff)
  then show ?thesis
    using assms(1,2,3) by (auto simp add: respond_to_trade_offer_def Let_def)
qed


section \<open>Replaying trades on one account\<close>



lemma holdings_frame [simp]:
  "holdings (add_to_wallet u x s) = holdings s"
  "holdings_seq (add_to_wallet u x s) = holdings_seq s"
  "holdings (record_transaction t s) = holdings s"
  "holdings_seq (record_transaction t s) = holdings_seq s"
  "users (record_transaction t s) = users s"
  "users (add_to_holding i k s) = users s"
  "users (delete_holding i s) = users s"
  "users (insert_holding v a b k s) = users s"
  by (simp_all add: add_to_wallet_def record_transaction_def add_to_holding_def
        delete_holding_def insert_holding_def)










lemma find_holding_frame:
  "find_holding u t n (add_to_wallet v x s) = find_holding u t n s"
  by (simp add: find_holding_def)










section \<open>Parlays\<close>


lemma parlays_insert_parlay_bets [simp]:
  "parlays (insert_parlay_bets pid valid s) = parlays s"
  by (induction pid valid s rule: insert_parlay_bets.induct) simp_all





end
